theory Spec2Isabelle
  imports Main "HOL-Library.Char_ord" "HOL-Library.List_Lexorder" "HOL-Library.Sublist"
begin

section \<open>Python values and strings\<close>

text \<open>
  The script \<^verbatim>\<open>pandas_mail_script.py\<close> is embedded function by function. Python
  \<^verbatim>\<open>str\<close> and \<^verbatim>\<open>bytes\<close> values are both \<^typ>\<open>string\<close>: a text is the list of its
  UTF-8 bytes, so \<^verbatim>\<open>.encode("utf-8")\<close> is the identity. The string operations
  (\<^verbatim>\<open>strip\<close>, \<^verbatim>\<open>lower\<close>, \<^verbatim>\<open>int\<close>) are the ones Python performs on ASCII text;
  non-ASCII letters only occur inside the fixed message texts, where they are written
  as their UTF-8 bytes.
\<close>

datatype pyval = PNone | PNaN | PBool bool | PInt int | PStr string

datatype error =
    ValueError string     \<comment> \<open>\<^verbatim>\<open>int()\<close> on an invalid literal (the literal)\<close>
  | RuntimeError string   \<comment> \<open>raised by \<^verbatim>\<open>load_env\<close> (the message)\<close>
  | KeyError string       \<comment> \<open>a missing DataFrame column (the column)\<close>
  | BinasciiError         \<comment> \<open>\<^verbatim>\<open>binascii.Error\<close> of the base64 decoder\<close>
  | LibraryError string   \<comment> \<open>any other exception raised inside a library call\<close>

definition is_space :: "char \<Rightarrow> bool" where
  \<comment> \<open>\<^verbatim>\<open>str.isspace\<close> on ASCII: TAB, LF, VT, FF, CR, FS, GS, RS, US and the blank\<close>
  "is_space c = ((of_char c :: nat) \<in> {9, 10, 11, 12, 13, 28, 29, 30, 31, 32})"

definition is_digit :: "char \<Rightarrow> bool" where
  "is_digit c = (48 \<le> (of_char c :: nat) \<and> (of_char c :: nat) \<le> 57)"

definition digit_val :: "char \<Rightarrow> int" where
  "digit_val c = int (of_char c) - 48"

definition lstrip :: "string \<Rightarrow> string" where
  "lstrip s = dropWhile is_space s"

definition rstrip :: "string \<Rightarrow> string" where
  "rstrip s = rev (dropWhile is_space (rev s))"

definition strip :: "string \<Rightarrow> string" where
  "strip s = lstrip (rstrip s)"

definition lower_char :: "char \<Rightarrow> char" where
  "lower_char c =
     (if 65 \<le> (of_char c :: nat) \<and> (of_char c :: nat) \<le> 90
      then char_of ((of_char c :: nat) + 32) else c)"

definition lower :: "string \<Rightarrow> string" where
  "lower s = map lower_char s"

fun join :: "string \<Rightarrow> string list \<Rightarrow> string" where
  "join sep [] = []"
| "join sep [x] = x"
| "join sep (x # y # ys) = x @ sep @ join sep (y # ys)"

subsection \<open>The builtin \<^verbatim>\<open>int\<close> on a string\<close>

text \<open>
  \<^verbatim>\<open>int(s)\<close> in base 10: surrounding whitespace is dropped, one sign may precede the
  digits, single underscores may separate digits, leading zeros are allowed. CPython
  refuses more than 4300 digits (\<^verbatim>\<open>sys.int_info.default_max_str_digits\<close>).
\<close>

fun dec_digits :: "string \<Rightarrow> int list option" where
  "dec_digits [] = None"
| "dec_digits [c] = (if is_digit c then Some [digit_val c] else None)"
| "dec_digits (c # d # cs) =
     (if \<not> is_digit c then None
      else if d = CHR ''_'' then map_option (Cons (digit_val c)) (dec_digits cs)
      else map_option (Cons (digit_val c)) (dec_digits (d # cs)))"

definition max_str_digits :: nat where
  "max_str_digits = 4300"

definition py_int :: "string \<Rightarrow> int option" where
  "py_int s =
     (let t = strip s;
          (sign, body) = (case t of
              c # r \<Rightarrow> if c = CHR ''-'' then (- 1, r) else if c = CHR ''+'' then (1, r) else (1, t)
            | [] \<Rightarrow> (1, t))
      in case dec_digits body of
           None \<Rightarrow> None
         | Some ds \<Rightarrow>
             if length ds > max_str_digits then None
             else Some (sign * foldl (\<lambda>a d. 10 * a + d) 0 ds))"

section \<open>Configuration: \<^verbatim>\<open>load_env\<close>\<close>

text \<open>
  The environment is the process environment after \<^verbatim>\<open>load_dotenv()\<close> has merged the
  \<^verbatim>\<open>.env\<close> file into it: a map from variable names to values. The configuration is
  the dictionary the function builds, in insertion order.
\<close>

type_synonym environ = "string \<rightharpoonup> string"
type_synonym config = "(string \<times> pyval) list"

definition getenv :: "environ \<Rightarrow> string \<Rightarrow> pyval" where
  "getenv env k = (case env k of None \<Rightarrow> PNone | Some v \<Rightarrow> PStr v)"

definition getenv_default :: "environ \<Rightarrow> string \<Rightarrow> string \<Rightarrow> string" where
  "getenv_default env k d = (case env k of None \<Rightarrow> d | Some v \<Rightarrow> v)"

definition missing_keys :: "config \<Rightarrow> string list" where
  \<comment> \<open>\<^verbatim>\<open>[k for k, v in cfg.items() if v in (None, "") and k not in ("port",)]\<close>\<close>
  "missing_keys cfg =
     map fst (filter (\<lambda>(k, v). v \<in> set [PNone, PStr []] \<and> k \<notin> set [''port'']) cfg)"

definition load_env :: "environ \<Rightarrow> error + config" where
  "load_env env =
     (let host = getenv_default env ''SMTP_HOST'' ''smtp.gmail.com'';
          port_str = getenv_default env ''SMTP_PORT'' ''587''
      in case py_int port_str of
           None \<Rightarrow> Inl (ValueError port_str)
         | Some port \<Rightarrow>
             let cfg = [(''host'', PStr host),
                        (''port'', PInt port),
                        (''user'', getenv env ''SMTP_USER''),
                        (''password'', getenv env ''SMTP_PASS''),
                        (''from_email'', getenv env ''FROM_EMAIL''),
                        (''fallback_to'', getenv env ''FALLBACK_TO'')];
                 missing = missing_keys cfg
             in if missing \<noteq> []
                then Inl (RuntimeError
                       (''Missing required environment variables: '' @ join '', '' missing))
                else Inr cfg)"

definition cfg_str :: "config \<Rightarrow> string \<Rightarrow> string" where
  \<comment> \<open>\<^verbatim>\<open>cfg[k]\<close> for a key that \<^verbatim>\<open>load_env\<close> has validated to hold a string\<close>
  "cfg_str cfg k = (case map_of cfg k of Some (PStr s) \<Rightarrow> s | _ \<Rightarrow> [])"

text \<open>
  The keys the validation reports, read directly off the environment: the
  host counts only when it is set to the empty string, the four others also when
  they are unset.
\<close>

definition unset_or_empty :: "environ \<Rightarrow> string \<Rightarrow> bool" where
  "unset_or_empty env k = (env k = None \<or> env k = Some [])"

definition required_missing :: "environ \<Rightarrow> string list" where
  "required_missing env =
     (if env ''SMTP_HOST'' = Some [] then [''host''] else []) @
     (if unset_or_empty env ''SMTP_USER'' then [''user''] else []) @
     (if unset_or_empty env ''SMTP_PASS'' then [''password''] else []) @
     (if unset_or_empty env ''FROM_EMAIL'' then [''from_email''] else []) @
     (if unset_or_empty env ''FALLBACK_TO'' then [''fallback_to''] else [])"

section \<open>Recipients: \<^verbatim>\<open>load_recipients\<close>\<close>

text \<open>
  The source of \<^verbatim>\<open>load_recipients\<close> is the table \<^verbatim>\<open>pd.read_csv\<close> returns:
  the header and the rows. The \<^verbatim>\<open>dtype\<close> argument makes the cells of
  \<^verbatim>\<open>email\<close> and \<^verbatim>\<open>name\<close> strings or missing (\<^verbatim>\<open>pd.NA\<close>, here \<open>None\<close>);
  the cells of \<^verbatim>\<open>active\<close> have whatever type the parser inferred: booleans,
  numbers (written as integers), strings, or \<^verbatim>\<open>NaN\<close>. A field of a row whose column is not in the header
  is never read. A file that does not exist is \<open>None\<close>.
\<close>

record csv_row =
  col_email :: "string option"
  col_name :: "string option"
  col_active :: pyval

record csv_frame =
  csv_columns :: "string list"
  csv_rows :: "csv_row list"

type_synonym recipient = "string \<times> string"

definition normalize_email :: "csv_row \<Rightarrow> csv_row" where
  \<comment> \<open>\<^verbatim>\<open>df["email"].str.strip().str.lower()\<close>, missing cells stay missing\<close>
  "normalize_email r = r\<lparr>col_email := map_option (\<lambda>e. lower (strip e)) (col_email r)\<rparr>"

fun py_eq_True :: "pyval \<Rightarrow> bool" where
  \<comment> \<open>\<^verbatim>\<open>v == True\<close>: Python's \<^verbatim>\<open>bool\<close> is a subtype of \<^verbatim>\<open>int\<close>, with \<^verbatim>\<open>True == 1\<close>\<close>
  "py_eq_True (PBool b) = b"
| "py_eq_True (PInt i) = (i = 1)"
| "py_eq_True (PStr s) = False"
| "py_eq_True PNone = False"
| "py_eq_True PNaN = False"

definition contains_at :: "csv_row \<Rightarrow> (string \<times> string option) option" where
  \<comment> \<open>\<^verbatim>\<open>df["email"].str.contains("@", na=False)\<close>; a kept row has an email\<close>
  "contains_at r =
     (case col_email r of
        None \<Rightarrow> None
      | Some e \<Rightarrow> if CHR ''@'' \<in> set e then Some (e, col_name r) else None)"

fun drop_duplicates :: "string list \<Rightarrow> (string \<times> 'a) list \<Rightarrow> (string \<times> 'a) list" where
  \<comment> \<open>\<^verbatim>\<open>drop_duplicates(subset=["email"])\<close>, keeping the first row of each email;
      the first argument holds the emails already seen\<close>
  "drop_duplicates seen [] = []"
| "drop_duplicates seen ((e, n) # rs) =
     (if e \<in> set seen then drop_duplicates seen rs
      else (e, n) # drop_duplicates (e # seen) rs)"

definition fillna :: "string option \<Rightarrow> string" where
  "fillna n = (case n of None \<Rightarrow> [] | Some s \<Rightarrow> s)"

definition load_recipients :: "csv_frame option \<Rightarrow> error + recipient list" where
  "load_recipients csv =
     (case csv of
        None \<Rightarrow> Inr []
      | Some df \<Rightarrow>
          if ''email'' \<notin> set (csv_columns df) then Inl (KeyError ''email'')
          else
            let df1 = map normalize_email (csv_rows df);
                df2 = (if ''active'' \<in> set (csv_columns df)
                       then filter (\<lambda>r. py_eq_True (col_active r)) df1 else df1);
                df3 = List.map_filter contains_at df2;
                df4 = drop_duplicates [] df3;
                df5 = (if ''name'' \<notin> set (csv_columns df)
                       then map (\<lambda>(e, n). (e, Some [])) df4 else df4)
            in Inr (map (\<lambda>(e, n). (e, fillna n)) df5))"

section \<open>Report: \<^verbatim>\<open>build_report\<close>\<close>

text \<open>
  A DataFrame is its list of column names and its rows, each row a list of cells
  aligned with the columns. The records of \<^verbatim>\<open>data\<close> are typed; the body of
  \<^verbatim>\<open>build_report\<close> is a function of them, and \<^verbatim>\<open>build_report\<close> itself applies
  it to the fixed sample. Numeric cells are the numbers pandas stores (after
  \<^verbatim>\<open>concat\<close>, as floats of the same value).
\<close>

record item =
  sku :: string
  status :: string
  qty :: int

record frame =
  columns :: "string list"
  rows :: "pyval list list"

definition DataFrame :: "item list \<Rightarrow> frame" where
  "DataFrame d =
     \<lparr>columns = [''sku'', ''status'', ''qty''],
      rows = map (\<lambda>r. [PStr (sku r), PStr (status r), PInt (qty r)]) d\<rparr>"

fun agg_add :: "item \<Rightarrow> (string \<times> int \<times> int) list \<Rightarrow> (string \<times> int \<times> int) list" where
  \<comment> \<open>one record enters its group (count, sum); groups are kept sorted by key\<close>
  "agg_add r [] = [(status r, 1, qty r)]"
| "agg_add r ((k, c, s) # gs) =
     (if status r = k then (k, c + 1, s + qty r) # gs
      else if status r < k then (status r, 1, qty r) # (k, c, s) # gs
      else (k, c, s) # agg_add r gs)"

definition groupby_status_agg :: "item list \<Rightarrow> frame" where
  \<comment> \<open>\<^verbatim>\<open>df.groupby("status", as_index=False).agg(total_skus=("sku", "count"),
      total_qty=("qty", "sum"))\<close>\<close>
  "groupby_status_agg d =
     \<lparr>columns = [''status'', ''total_skus'', ''total_qty''],
      rows = map (\<lambda>(k, c, s). [PStr k, PInt c, PInt s]) (fold agg_add d [])\<rparr>"

definition insert_col :: "string \<Rightarrow> pyval \<Rightarrow> frame \<Rightarrow> frame" where
  \<comment> \<open>\<^verbatim>\<open>df.insert(0, name, value)\<close>\<close>
  "insert_col c v f = \<lparr>columns = c # columns f, rows = map (Cons v) (rows f)\<rparr>"

definition cell :: "string list \<Rightarrow> pyval list \<Rightarrow> string \<Rightarrow> pyval" where
  \<comment> \<open>the cell of a row under a column name; \<^verbatim>\<open>NaN\<close> when the column is absent\<close>
  "cell cols r c = (case map_of (zip cols r) c of Some v \<Rightarrow> v | None \<Rightarrow> PNaN)"

definition concat_frames :: "frame \<Rightarrow> frame \<Rightarrow> frame" where
  \<comment> \<open>\<^verbatim>\<open>pd.concat([f, g], ignore_index=True)\<close>: the union of the columns in order of
      appearance, the rows of \<open>f\<close> before the rows of \<open>g\<close>\<close>
  "concat_frames f g =
     (let cols = columns f @ filter (\<lambda>c. c \<notin> set (columns f)) (columns g)
      in \<lparr>columns = cols,
          rows = map (\<lambda>r. map (cell (columns f) r) cols) (rows f) @
                 map (\<lambda>r. map (cell (columns g) r) cols) (rows g)\<rparr>)"

definition report_of :: "item list \<Rightarrow> frame" where
  "report_of d =
     (let df = DataFrame d;
          summary = insert_col ''section'' (PStr ''summary'') (groupby_status_agg d);
          df2 = insert_col ''section'' (PStr ''detail'') df
      in concat_frames summary df2)"

definition data :: "item list" where
  "data = [\<lparr>sku = ''D-235700'', status = ''in_stock'', qty = 12\<rparr>,
           \<lparr>sku = ''D-226994'', status = ''low_stock'', qty = 2\<rparr>,
           \<lparr>sku = ''D-211744'', status = ''out_of_stock'', qty = 0\<rparr>]"

definition build_report :: frame where
  "build_report = report_of data"

definition head :: "nat \<Rightarrow> frame \<Rightarrow> frame" where
  "head n f = f\<lparr>rows := take n (rows f)\<rparr>"





section \<open>Base64: \<^verbatim>\<open>base64.encodebytes\<close> and \<^verbatim>\<open>base64.decodebytes\<close>\<close>

text \<open>
  \<^verbatim>\<open>encoders.encode_base64\<close> replaces the payload by \<^verbatim>\<open>base64.encodebytes\<close> of
  it: \<^verbatim>\<open>binascii.b2a_base64\<close> on each chunk of 57 bytes, every chunk followed by a
  newline. The receiving side is \<^verbatim>\<open>base64.decodebytes\<close>, that is
  \<^verbatim>\<open>binascii.a2b_base64\<close>: characters outside the alphabet are skipped, a complete
  padding ends the data, and input that stops inside a quad is an error. Shifts and
  masks on six-bit digits are written with \<open>div\<close> and \<open>mod\<close>.
\<close>

definition b64_alphabet :: string where
  "b64_alphabet = ''ABCDEFGHIJKLMNOPQRSTUVWXYZabcdefghijklmnopqrstuvwxyz0123456789+/''"

definition b64_char :: "nat \<Rightarrow> char" where
  "b64_char n = b64_alphabet ! n"

definition b64_value :: "char \<Rightarrow> nat option" where
  "b64_value c = map_of (zip b64_alphabet [0..<length b64_alphabet]) c"

fun b2a :: "string \<Rightarrow> string" where
  "b2a [] = []"
| "b2a [a] =
     (let x = of_char a :: nat
      in [b64_char (x div 4), b64_char (x mod 4 * 16), CHR ''='', CHR ''=''])"
| "b2a [a, b] =
     (let x = of_char a :: nat; y = of_char b :: nat
      in [b64_char (x div 4), b64_char (x mod 4 * 16 + y div 16),
          b64_char (y mod 16 * 4), CHR ''=''])"
| "b2a (a # b # c # rest) =
     (let x = of_char a :: nat; y = of_char b :: nat; z = of_char c :: nat
      in [b64_char (x div 4), b64_char (x mod 4 * 16 + y div 16),
          b64_char (y mod 16 * 4 + z div 64), b64_char (z mod 64)] @ b2a rest)"

definition b2a_base64 :: "string \<Rightarrow> string" where
  "b2a_base64 s = b2a s @ [CHR 0x0A]"

definition MAXBINSIZE :: nat where
  "MAXBINSIZE = 76 div 4 * 3"

function encodebytes :: "string \<Rightarrow> string" where
  "encodebytes s =
     (if s = [] then []
      else b2a_base64 (take MAXBINSIZE s) @ encodebytes (drop MAXBINSIZE s))"
  by pat_completeness auto
termination
  by (relation "measure length") (auto simp: MAXBINSIZE_def)

declare encodebytes.simps [simp del]

definition emit :: "nat \<Rightarrow> error + string \<Rightarrow> error + string" where
  \<comment> \<open>one decoded byte in front of what the rest of the input decodes to\<close>
  "emit n r = (case r of Inl e \<Rightarrow> Inl e | Inr bs \<Rightarrow> Inr (char_of n # bs))"

fun a2b :: "nat \<Rightarrow> nat \<Rightarrow> nat \<Rightarrow> string \<Rightarrow> error + string" where
  \<comment> \<open>the decoder's loop; its state is the position in the quad, the bits left over
      from the previous digit and the number of padding characters seen\<close>
  "a2b quad_pos leftchar pads [] = (if quad_pos \<noteq> 0 then Inl BinasciiError else Inr [])"
| "a2b quad_pos leftchar pads (c # cs) =
     (if c = CHR ''='' then
        (if quad_pos \<ge> 2 \<and> quad_pos + (pads + 1) \<ge> 4 then Inr []
         else a2b quad_pos leftchar (if quad_pos \<ge> 2 then pads + 1 else pads) cs)
      else case b64_value c of
        None \<Rightarrow> a2b quad_pos leftchar pads cs
      | Some v \<Rightarrow>
          if quad_pos = 0 then a2b 1 v 0 cs
          else if quad_pos = 1 then emit (leftchar * 4 + v div 16) (a2b 2 (v mod 16) 0 cs)
          else if quad_pos = 2 then emit (leftchar * 16 + v div 4) (a2b 3 (v mod 4) 0 cs)
          else emit (leftchar * 64 + v) (a2b 0 0 0 cs))"

definition decodebytes :: "string \<Rightarrow> error + string" where
  "decodebytes s = a2b 0 0 0 s"

section \<open>Messages: \<^verbatim>\<open>make_email\<close>\<close>

text \<open>
  A message is the tree the \<^verbatim>\<open>email.mime\<close> constructors build. A multipart holds
  its subtype, the headers set on it and its parts; a text part the arguments of
  \<^verbatim>\<open>MIMEText\<close>; any other part its content type, the headers set on it and its
  payload.
\<close>

datatype mime =
    MIMEMultipart string "(string \<times> string) list" "mime list"
  | MIMEText string string string
  | MIMEBase string string "(string \<times> string) list" string

definition attachment_part :: "string \<times> string \<Rightarrow> mime" where
  \<comment> \<open>the body of the loop over \<^verbatim>\<open>attachments\<close>\<close>
  "attachment_part fc =
     (case fc of (filename, content) \<Rightarrow>
        MIMEBase ''application'' ''octet-stream''
          [(''Content-Transfer-Encoding'', ''base64''),
           (''Content-Disposition'',
            ''attachment; filename='' @ [CHR 0x22] @ filename @ [CHR 0x22])]
          (encodebytes content))"

definition make_email ::
  "string \<Rightarrow> string \<Rightarrow> string \<Rightarrow> string \<Rightarrow> string option \<Rightarrow> (string \<times> string) list \<Rightarrow> mime"
where
  "make_email from_email to_email subject plain_body html_body attachments =
     (let alt = MIMEMultipart ''alternative'' []
                  (MIMEText plain_body ''plain'' ''utf-8'' #
                   (case html_body of
                      None \<Rightarrow> []
                    | Some h \<Rightarrow> if h \<noteq> [] then [MIMEText h ''html'' ''utf-8''] else []))
      in MIMEMultipart ''mixed''
           [(''From'', from_email), (''To'', to_email), (''Subject'', subject)]
           (alt # map attachment_part attachments))"

text \<open>Reading a message back.\<close>

fun parts :: "mime \<Rightarrow> mime list" where
  "parts (MIMEMultipart st hs ps) = ps"
| "parts m = []"

fun header :: "mime \<Rightarrow> string \<Rightarrow> string option" where
  "header (MIMEMultipart st hs ps) k = map_of hs k"
| "header (MIMEBase mt st hs p) k = map_of hs k"
| "header (MIMEText t st cs) k = None"

fun is_attachment :: "mime \<Rightarrow> bool" where
  "is_attachment m =
     (case header m ''Content-Disposition'' of
        None \<Rightarrow> False
      | Some v \<Rightarrow> prefix ''attachment'' v)"

fun payload :: "mime \<Rightarrow> string" where
  "payload (MIMEBase mt st hs p) = p"
| "payload (MIMEText t st cs) = t"
| "payload (MIMEMultipart st hs ps) = []"

fun text_bodies :: "string \<Rightarrow> mime \<Rightarrow> string list" where
  \<comment> \<open>the texts of the text parts of a given subtype inside the alternative part\<close>
  "text_bodies sub (MIMEMultipart st hs ps) =
     concat (map (\<lambda>p. case p of
        MIMEMultipart st' hs' qs \<Rightarrow>
          if st' = ''alternative''
          then concat (map (\<lambda>q. case q of MIMEText t s c \<Rightarrow> if s = sub then [t] else [] | _ \<Rightarrow> []) qs)
          else []
      | _ \<Rightarrow> []) ps)"
| "text_bodies sub m = []"

section \<open>The driver: \<^verbatim>\<open>main\<close>\<close>

text \<open>
  The libraries are parameters of the driver: \<^verbatim>\<open>to_csv\<close> and \<^verbatim>\<open>to_html\<close> render a
  table, and \<^verbatim>\<open>send_email\<close> is a function of the configuration, the message and the
  state of the outside world, returning \<open>None\<close> when the message was sent and the text
  of the exception otherwise. The run is observed as the list of its events: the
  calls of \<^verbatim>\<open>send_email\<close> and the printed lines. Message construction stands outside
  the \<^verbatim>\<open>try\<close> block, so the loop is written for any constructor, also one that
  raises; \<^verbatim>\<open>main\<close> runs it with \<^verbatim>\<open>make_email\<close>.
\<close>

datatype event = SendEmail mime | Print string

definition NL :: string where
  "NL = [CHR 0x0A]"

definition greeting_name :: "string \<Rightarrow> string" where
  \<comment> \<open>\<^verbatim>\<open>name = (row.get("name") or "").strip()\<close>, then
      \<^verbatim>\<open>name if name else "pozdrav"\<close>\<close>
  "greeting_name row_name =
     (let name = strip (if row_name \<noteq> [] then row_name else [])
      in if name \<noteq> [] then name else ''pozdrav'')"

definition plain_text :: "string \<Rightarrow> string" where
  "plain_text g =
     ''Bok '' @ g @ '','' @ NL @ NL @
     ''Bok kak si Deane? Ovo je test.'' @ NL @ NL @
     ''U privitku je kratki report koji je generiran pomo'' @ [CHR 0xC4, CHR 0x87] @
     ''u pandas-a.'' @ NL @
     ''Lp!''"

definition html_text :: "string \<Rightarrow> string \<Rightarrow> string" where
  "html_text g preview_html =
     NL @
     ''        <html>'' @ NL @
     ''          <body>'' @ NL @
     ''            <p>Bok '' @ g @ '',</p>'' @ NL @
     ''            <p><strong>Bok kak si Deane? Ovo je test.</strong></p>'' @ NL @
     ''            <p>U privitku je kratki report (CSV) generiran pomo'' @
       [CHR 0xC4, CHR 0x87] @ ''u <code>pandas</code>.</p>'' @ NL @
     ''            <h4>Pregled (prvih 10 redaka)</h4>'' @ NL @
     ''            '' @ preview_html @ NL @
     ''            <p>LP!</p>'' @ NL @
     ''          </body>'' @ NL @
     ''        </html>'' @ NL @
     ''        ''"

definition subject_text :: string where
  "subject_text = ''Test s pandas izvje'' @ [CHR 0xC5, CHR 0xA1] @ ''tajem''"

definition build_message :: "config \<Rightarrow> string \<Rightarrow> string \<Rightarrow> recipient \<Rightarrow> mime" where
  \<comment> \<open>the loop body up to the \<^verbatim>\<open>try\<close>: greeting, both bodies, \<^verbatim>\<open>make_email\<close>\<close>
  "build_message cfg report_bytes preview_html r =
     (case r of (email, row_name) \<Rightarrow>
        let g = greeting_name row_name;
            plain = plain_text g;
            html = html_text g preview_html
        in make_email (cfg_str cfg ''from_email'') email subject_text plain (Some html)
             [(''report.csv'', report_bytes)])"

definition sent_line :: "string \<Rightarrow> string" where
  "sent_line email = [CHR 0xE2, CHR 0x9C, CHR 0x85] @ '' Sent to '' @ email"

definition failed_line :: "string \<Rightarrow> string \<Rightarrow> string" where
  "failed_line email e =
     [CHR 0xE2, CHR 0x9D, CHR 0x8C] @ '' Failed to send to '' @ email @ '': '' @ e"

type_synonym 'w sender = "config \<Rightarrow> mime \<Rightarrow> 'w \<Rightarrow> string option \<times> 'w"

fun send_loop ::
  "(recipient \<Rightarrow> error + mime) \<Rightarrow> 'w sender \<Rightarrow> config \<Rightarrow> recipient list \<Rightarrow> 'w
     \<Rightarrow> error option \<times> event list \<times> 'w"
where
  "send_loop build send_email cfg [] w = (None, [], w)"
| "send_loop build send_email cfg (r # rs) w =
     (case build r of
        Inl e \<Rightarrow> (Some e, [], w)
      | Inr msg \<Rightarrow>
          (case send_email cfg msg w of
             (outcome, w') \<Rightarrow>
               let line = (case outcome of
                             None \<Rightarrow> sent_line (fst r)
                           | Some e \<Rightarrow> failed_line (fst r) e)
               in case send_loop build send_email cfg rs w' of
                    (err, evs, w'') \<Rightarrow> (err, SendEmail msg # Print line # evs, w'')))"

definition dataframe_to_csv_bytes :: "(frame \<Rightarrow> string) \<Rightarrow> frame \<Rightarrow> string" where
  "dataframe_to_csv_bytes to_csv df = to_csv df"

definition main ::
  "(frame \<Rightarrow> string) \<Rightarrow> (frame \<Rightarrow> string) \<Rightarrow> 'w sender \<Rightarrow> environ \<Rightarrow> csv_frame option \<Rightarrow> 'w
     \<Rightarrow> error option \<times> event list \<times> 'w"
where
  "main to_csv to_html send_email env recipients_csv w =
     (case load_env env of
        Inl e \<Rightarrow> (Some e, [], w)
      | Inr cfg \<Rightarrow>
          (case load_recipients recipients_csv of
             Inl e \<Rightarrow> (Some e, [], w)
           | Inr loaded \<Rightarrow>
               let recipients_df =
                     (if loaded = [] then [(cfg_str cfg ''fallback_to'', ''Primatelj'')]
                      else loaded);
                   report_df = build_report;
                   report_bytes = dataframe_to_csv_bytes to_csv report_df;
                   preview_html = to_html (head 10 report_df)
               in send_loop (\<lambda>r. Inr (build_message cfg report_bytes preview_html r))
                    send_email cfg recipients_df w))"

section \<open>Reading the results, and sample inputs\<close>


definition env_minimal :: environ where
  "env_minimal =
     map_of [(''SMTP_USER'', ''u''), (''SMTP_PASS'', ''p''),
             (''FROM_EMAIL'', ''me@example.org''), (''FALLBACK_TO'', ''you@example.org'')]"

definition env_empty_host :: environ where
  "env_empty_host =
     map_of [(''SMTP_HOST'', []), (''SMTP_USER'', ''u''), (''SMTP_PASS'', ''p''),
             (''FROM_EMAIL'', ''me@example.org''), (''FALLBACK_TO'', ''you@example.org'')]"











text \<open>The messages handed to \<^verbatim>\<open>send_email\<close> and the lines printed, in order.\<close>

definition attempts :: "event list \<Rightarrow> mime list" where
  "attempts evs = concat (map (\<lambda>ev. case ev of SendEmail m \<Rightarrow> [m] | Print s \<Rightarrow> []) evs)"

definition printed :: "event list \<Rightarrow> string list" where
  "printed evs = concat (map (\<lambda>ev. case ev of SendEmail m \<Rightarrow> [] | Print s \<Rightarrow> [s]) evs)"


definition sample_sender :: "nat sender" where
  "sample_sender cfg m w = (if w = 0 then Some ''connection refused'' else None, w + 1)"

definition cfg_minimal :: config where
  "cfg_minimal =
     [(''host'', PStr ''smtp.gmail.com''), (''port'', PInt 587),
      (''user'', PStr ''u''), (''password'', PStr ''p''),
      (''from_email'', PStr ''me@example.org''),
      (''fallback_to'', PStr ''you@example.org'')]"








definition prepend :: "string \<Rightarrow> error + string \<Rightarrow> error + string" where
  \<comment> \<open>decoded bytes in front of what the rest of the input decodes to\<close>
  "prepend s r = (case r of Inl e \<Rightarrow> Inl e | Inr bs \<Rightarrow> Inr (s @ bs))"

section \<open>Properties of \<^verbatim>\<open>load_env\<close>\<close>

lemma py_int_587: "py_int ''587'' = Some 587"
  by (simp add: py_int_def strip_def lstrip_def rstrip_def is_space_def is_digit_def
      digit_val_def max_str_digits_def)



lemma getenv_missing: "(getenv env k \<in> set [PNone, PStr []]) = unset_or_empty env k"
  by (simp add: getenv_def unset_or_empty_def split: option.splits)

lemma host_missing:
  "(PStr (getenv_default env ''SMTP_HOST'' ''smtp.gmail.com'') \<in> set [PNone, PStr []])
     = (env ''SMTP_HOST'' = Some [])"
  by (simp add: getenv_default_def split: option.splits)

lemma missing_keys_Cons:
  "missing_keys ((k, v) # cfg) =
     (if v \<in> set [PNone, PStr []] \<and> k \<notin> set [''port''] then [k] else []) @ missing_keys cfg"
  by (simp add: missing_keys_def)

lemma missing_keys_Nil: "missing_keys [] = []"
  by (simp add: missing_keys_def)

text \<open>The comprehension over the dictionary finds exactly the keys listed above.\<close>

lemma missing_keys_eq:
  "missing_keys [(''host'', PStr (getenv_default env ''SMTP_HOST'' ''smtp.gmail.com'')),
                 (''port'', PInt port),
                 (''user'', getenv env ''SMTP_USER''),
                 (''password'', getenv env ''SMTP_PASS''),
                 (''from_email'', getenv env ''FROM_EMAIL''),
                 (''fallback_to'', getenv env ''FALLBACK_TO'')] = required_missing env"
  unfolding missing_keys_Cons missing_keys_Nil getenv_missing host_missing required_missing_def
  by simp

lemma load_env_cases:
  assumes "py_int (getenv_default env ''SMTP_PORT'' ''587'') = Some p"
  shows "load_env env =
     (if required_missing env = []
      then Inr [(''host'', PStr (getenv_default env ''SMTP_HOST'' ''smtp.gmail.com'')),
                (''port'', PInt p),
                (''user'', getenv env ''SMTP_USER''),
                (''password'', getenv env ''SMTP_PASS''),
                (''from_email'', getenv env ''FROM_EMAIL''),
                (''fallback_to'', getenv env ''FALLBACK_TO'')]
      else Inl (RuntimeError (''Missing required environment variables: '' @
                  join '', '' (required_missing env))))"
proof -
  have "load_env env =
     (if required_missing env \<noteq> []
      then Inl (RuntimeError (''Missing required environment variables: '' @
                  join '', '' (required_missing env)))
      else Inr [(''host'', PStr (getenv_default env ''SMTP_HOST'' ''smtp.gmail.com'')),
                (''port'', PInt p),
                (''user'', getenv env ''SMTP_USER''),
                (''password'', getenv env ''SMTP_PASS''),
                (''from_email'', getenv env ''FROM_EMAIL''),
                (''fallback_to'', getenv env ''FALLBACK_TO'')])"
    using assms unfolding load_env_def Let_def by (simp only: missing_keys_eq option.case)
  then show ?thesis
    by (cases "required_missing env = []") simp_all
qed





text \<open>
  C8, as the code has it. When \<^verbatim>\<open>SMTP_USER\<close>, \<^verbatim>\<open>SMTP_PASS\<close>, \<^verbatim>\<open>FROM_EMAIL\<close> and
  \<^verbatim>\<open>FALLBACK_TO\<close> are set to non-empty values, \<^verbatim>\<open>SMTP_PORT\<close> is unset and
  \<^verbatim>\<open>SMTP_HOST\<close> is not set to the empty string, \<^verbatim>\<open>load_env\<close> succeeds and the
  port of the configuration is 587.
\<close>

theorem load_env_default_port:
  assumes "env ''SMTP_USER'' = Some u" and "u \<noteq> []"
    and "env ''SMTP_PASS'' = Some pw" and "pw \<noteq> []"
    and "env ''FROM_EMAIL'' = Some f" and "f \<noteq> []"
    and "env ''FALLBACK_TO'' = Some t" and "t \<noteq> []"
    and "env ''SMTP_PORT'' = None"
    and "env ''SMTP_HOST'' \<noteq> Some []"
  shows "\<exists>cfg. load_env env = Inr cfg \<and> map_of cfg ''port'' = Some (PInt 587)"
proof -
  have "py_int (getenv_default env ''SMTP_PORT'' ''587'') = Some 587"
    using assms(9) by (simp add: getenv_default_def py_int_587)
  moreover have "required_missing env = []"
    using assms by (simp add: required_missing_def unset_or_empty_def)
  ultimately show ?thesis
    by (simp add: load_env_cases)
qed

theorem load_env_default_port_witness:
  "env_minimal ''SMTP_USER'' = Some ''u'' \<and> env_minimal ''SMTP_PASS'' = Some ''p''
   \<and> env_minimal ''FROM_EMAIL'' = Some ''me@example.org''
   \<and> env_minimal ''FALLBACK_TO'' = Some ''you@example.org''
   \<and> env_minimal ''SMTP_PORT'' = None \<and> env_minimal ''SMTP_HOST'' = None
   \<and> (\<exists>cfg. load_env env_minimal = Inr cfg \<and> map_of cfg ''port'' = Some (PInt 587))"
  using load_env_default_port [of env_minimal "''u''" "''p''" "''me@example.org''"
      "''you@example.org''"]
  by (simp add: env_minimal_def)

text \<open>
  C8 as stated fails: with the four variables set, \<^verbatim>\<open>SMTP_PORT\<close> unset and
  \<^verbatim>\<open>SMTP_HOST\<close> set to the empty string, \<^verbatim>\<open>load_env\<close> raises.
\<close>

theorem load_env_empty_host_counterexample:
  "env_empty_host ''SMTP_USER'' = Some ''u'' \<and> env_empty_host ''SMTP_PASS'' = Some ''p''
   \<and> env_empty_host ''FROM_EMAIL'' = Some ''me@example.org''
   \<and> env_empty_host ''FALLBACK_TO'' = Some ''you@example.org''
   \<and> env_empty_host ''SMTP_PORT'' = None
   \<and> load_env env_empty_host
       = Inl (RuntimeError ''Missing required environment variables: host'')"
proof -
  have "py_int (getenv_default env_empty_host ''SMTP_PORT'' ''587'') = Some 587"
    by (simp add: getenv_default_def py_int_587 env_empty_host_def)
  moreover have "required_missing env_empty_host = [''host'']"
    by (simp add: required_missing_def unset_or_empty_def env_empty_host_def)
  ultimately have "load_env env_empty_host
       = Inl (RuntimeError ''Missing required environment variables: host'')"
    by (simp add: load_env_cases)
  then show ?thesis
    by (simp add: env_empty_host_def)
qed




section \<open>Properties of \<^verbatim>\<open>load_recipients\<close>\<close>


lemma col_active_normalize [simp]: "col_active (normalize_email r) = col_active r"
  by (simp add: normalize_email_def)

























section \<open>Properties of the greeting\<close>

lemma strip_Nil [simp]: "strip [] = []"
  by (simp add: strip_def lstrip_def rstrip_def)


lemma html_text_nonempty: "html_text g p \<noteq> []"
  by (simp add: html_text_def NL_def)

lemma text_bodies_build_message:
  "text_bodies ''plain'' (build_message cfg bytes preview (email, nm))
     = [plain_text (greeting_name nm)]"
  "text_bodies ''html'' (build_message cfg bytes preview (email, nm))
     = [html_text (greeting_name nm) preview]"
  by (simp_all add: build_message_def make_email_def Let_def html_text_nonempty attachment_part_def)



section \<open>Properties of the driver\<close>

lemma load_env_InrD:
  assumes "load_env env = Inr cfg"
  shows "\<exists>p. required_missing env = [] \<and>
           cfg = [(''host'', PStr (getenv_default env ''SMTP_HOST'' ''smtp.gmail.com'')),
                  (''port'', PInt p),
                  (''user'', getenv env ''SMTP_USER''),
                  (''password'', getenv env ''SMTP_PASS''),
                  (''from_email'', getenv env ''FROM_EMAIL''),
                  (''fallback_to'', getenv env ''FALLBACK_TO'')]"
proof (cases "py_int (getenv_default env ''SMTP_PORT'' ''587'')")
  case None
  then have "load_env env = Inl (ValueError (getenv_default env ''SMTP_PORT'' ''587''))"
    by (simp add: load_env_def)
  with assms show ?thesis by simp
next
  case (Some p)
  from load_env_cases [OF Some] assms show ?thesis
    by (cases "required_missing env = []") auto
qed

lemma required_missing_NilD:
  assumes "required_missing env = []"
  shows "\<not> unset_or_empty env ''FALLBACK_TO''" and "\<not> unset_or_empty env ''FROM_EMAIL''"
  using assms by (auto simp: required_missing_def split: if_splits)

lemma cfg_fallback:
  assumes "load_env env = Inr cfg"
  shows "\<exists>t. env ''FALLBACK_TO'' = Some t \<and> t \<noteq> [] \<and> cfg_str cfg ''fallback_to'' = t"
proof -
  from load_env_InrD [OF assms] obtain p where m: "required_missing env = []"
    and cfg: "cfg = [(''host'', PStr (getenv_default env ''SMTP_HOST'' ''smtp.gmail.com'')),
                  (''port'', PInt p),
                  (''user'', getenv env ''SMTP_USER''),
                  (''password'', getenv env ''SMTP_PASS''),
                  (''from_email'', getenv env ''FROM_EMAIL''),
                  (''fallback_to'', getenv env ''FALLBACK_TO'')]"
    by blast
  from required_missing_NilD(1) [OF m] obtain t where t: "env ''FALLBACK_TO'' = Some t" "t \<noteq> []"
    by (auto simp: unset_or_empty_def)
  have "cfg_str cfg ''fallback_to'' = t"
    unfolding cfg by (simp add: cfg_str_def getenv_def t)
  with t show ?thesis by blast
qed

lemma header_To_build_message:
  "header (build_message cfg bytes preview (email, nm)) ''To'' = Some email"
  by (simp add: build_message_def make_email_def Let_def)

lemma attempts_simps [simp]:
  "attempts [] = []"
  "attempts (SendEmail m # evs) = m # attempts evs"
  "attempts (Print s # evs) = attempts evs"
  "attempts (xs @ ys) = attempts xs @ attempts ys"
  by (simp_all add: attempts_def)

lemma printed_simps [simp]:
  "printed [] = []"
  "printed (SendEmail m # evs) = printed evs"
  "printed (Print s # evs) = s # printed evs"
  "printed (xs @ ys) = printed xs @ printed ys"
  by (simp_all add: printed_def)

lemma send_loop_all_built:
  assumes "\<forall>r \<in> set rs. build r = Inr (mk r)"
  shows "case send_loop build send_email cfg rs w of
           (err, evs, w') \<Rightarrow> err = None \<and> attempts evs = map mk rs \<and> length (printed evs) = length rs"
  using assms
proof (induction rs arbitrary: w)
  case Nil
  then show ?case by simp
next
  case (Cons r rs)
  obtain outcome w1 where s: "send_email cfg (mk r) w = (outcome, w1)"
    by (cases "send_email cfg (mk r) w")
  obtain err evs w2 where l: "send_loop build send_email cfg rs w1 = (err, evs, w2)"
    by (cases "send_loop build send_email cfg rs w1")
  from Cons.IH [of w1] Cons.prems l
  have "err = None \<and> attempts evs = map mk rs \<and> length (printed evs) = length rs"
    by simp
  with Cons.prems s l show ?case
    by simp
qed



lemma main_loop:
  assumes "load_env env = Inr c" and "load_recipients csv = Inr rs"
  shows "main to_csv to_html send_email env csv w =
     send_loop (\<lambda>r. Inr (build_message c (to_csv build_report) (to_html (head 10 build_report)) r))
       send_email c (if rs = [] then [(cfg_str c ''fallback_to'', ''Primatelj'')] else rs) w"
  using assms by (simp add: main_def Let_def dataframe_to_csv_bytes_def)

lemma load_recipients_None: "load_recipients None = Inr []"
  by (simp add: load_recipients_def)

text \<open>
  C4. For an absent recipient file \<^verbatim>\<open>load_recipients\<close> returns the empty table
  and no error. Whenever the configuration loads, \<^verbatim>\<open>main\<close> then runs its loop over
  exactly one recipient, whose address is the value of \<^verbatim>\<open>FALLBACK_TO\<close> and whose
  name is the placeholder \<^verbatim>\<open>Primatelj\<close>: one message is handed to \<^verbatim>\<open>send_email\<close>,
  addressed to the fallback address.
\<close>

theorem absent_file_fallback:
  assumes "load_env env = Inr c"
  shows "load_recipients None = Inr []
     \<and> (\<exists>t. env ''FALLBACK_TO'' = Some t \<and> t \<noteq> []
          \<and> main to_csv to_html send_email env None w
              = send_loop (\<lambda>r. Inr (build_message c (to_csv build_report)
                                     (to_html (head 10 build_report)) r))
                  send_email c [(t, ''Primatelj'')] w
          \<and> (\<exists>msg. attempts (fst (snd (main to_csv to_html send_email env None w))) = [msg]
                \<and> header msg ''To'' = Some t))"
proof -
  from cfg_fallback [OF assms] obtain t where t: "env ''FALLBACK_TO'' = Some t" "t \<noteq> []"
    "cfg_str c ''fallback_to'' = t" by blast
  let ?build = "\<lambda>r. build_message c (to_csv build_report) (to_html (head 10 build_report)) r"
  have m: "main to_csv to_html send_email env None w
      = send_loop (\<lambda>r. Inr (?build r)) send_email c [(t, ''Primatelj'')] w"
    using main_loop [OF assms load_recipients_None] t by simp
  have "attempts (fst (snd (send_loop (\<lambda>r. Inr (?build r)) send_email c [(t, ''Primatelj'')] w)))
      = [?build (t, ''Primatelj'')]"
    using send_loop_all_built [of "[(t, ''Primatelj'')]" "\<lambda>r. Inr (?build r)" ?build send_email c w]
    by (simp split: prod.splits)
  with m have "attempts (fst (snd (main to_csv to_html send_email env None w)))
      = [?build (t, ''Primatelj'')]"
    by simp
  with t m load_recipients_None header_To_build_message show ?thesis
    by blast
qed



lemma load_env_minimal: "load_env env_minimal = Inr cfg_minimal"
proof -
  have "py_int (getenv_default env_minimal ''SMTP_PORT'' ''587'') = Some 587"
    by (simp add: getenv_default_def py_int_587 env_minimal_def)
  moreover have "required_missing env_minimal = []"
    by (simp add: required_missing_def unset_or_empty_def env_minimal_def)
  ultimately show ?thesis
    by (simp add: load_env_cases cfg_minimal_def env_minimal_def getenv_def getenv_default_def)
qed


theorem absent_file_fallback_witness:
  "load_env env_minimal = Inr cfg_minimal
   \<and> load_recipients None = Inr []
   \<and> env_minimal ''FALLBACK_TO'' = Some ''you@example.org''
   \<and> (\<exists>msg. attempts (fst (snd (main (\<lambda>f. ''csv'') (\<lambda>f. ''<table/>'') sample_sender
                                  env_minimal None 0))) = [msg]
         \<and> header msg ''To'' = Some ''you@example.org'')"
proof -
  have e: "env_minimal ''FALLBACK_TO'' = Some ''you@example.org''"
    by (simp add: env_minimal_def)
  from absent_file_fallback [OF load_env_minimal, of "\<lambda>f. ''csv''" "\<lambda>f. ''<table/>''" sample_sender 0]
  obtain t msg where "env_minimal ''FALLBACK_TO'' = Some t"
    and "attempts (fst (snd (main (\<lambda>f. ''csv'') (\<lambda>f. ''<table/>'') sample_sender
                                  env_minimal None 0))) = [msg]"
    and "header msg ''To'' = Some t"
    by blast
  with e load_env_minimal load_recipients_None show ?thesis
    by auto
qed


section \<open>Properties of \<^verbatim>\<open>build_report\<close>\<close>

























section \<open>Properties of the message and its attachment\<close>

lemma length_b64_alphabet: "length b64_alphabet = 64"
  by (simp add: b64_alphabet_def)

lemma distinct_b64_alphabet: "distinct b64_alphabet"
  by (simp add: b64_alphabet_def)

lemma b64_value_char: "n < 64 \<Longrightarrow> b64_value (b64_char n) = Some n"
  unfolding b64_value_def b64_char_def
  using map_of_zip_nth [of b64_alphabet "[0..<length b64_alphabet]" n]
  by (simp add: length_b64_alphabet distinct_b64_alphabet)

lemma b64_value_None: "c \<notin> set b64_alphabet \<Longrightarrow> b64_value c = None"
  unfolding b64_value_def
  by (simp only: map_of_eq_None_iff map_fst_zip length_upt diff_zero set_map [symmetric]) simp

lemma b64_value_pad: "b64_value (CHR ''='') = None"
  by (rule b64_value_None) (simp add: b64_alphabet_def)

lemma b64_value_newline: "b64_value (CHR 0x0A) = None"
  by (rule b64_value_None) (simp add: b64_alphabet_def)

lemma b64_char_not_pad: "n < 64 \<Longrightarrow> b64_char n \<noteq> CHR ''=''"
  using b64_value_char [of n] b64_value_pad by auto

lemma a2b_digit:
  assumes "n < 64"
  shows "a2b q l p (b64_char n # cs) =
     (if q = 0 then a2b 1 n 0 cs
      else if q = 1 then emit (l * 4 + n div 16) (a2b 2 (n mod 16) 0 cs)
      else if q = 2 then emit (l * 16 + n div 4) (a2b 3 (n mod 4) 0 cs)
      else emit (l * 64 + n) (a2b 0 0 0 cs))"
  using assms by (simp add: b64_value_char b64_char_not_pad)

lemma a2b_newline: "a2b q l p (CHR 0x0A # cs) = a2b q l p cs"
  by (simp add: b64_value_newline)

lemma emit_Inr: "emit (of_char a) (Inr bs) = Inr (a # bs)"
  by (simp add: emit_def)

lemma sextet_bounds:
  fixes x y z :: nat
  assumes "x < 256" "y < 256" "z < 256"
  shows "x div 4 < 64" "x mod 4 * 16 + y div 16 < 64" "y mod 16 * 4 + z div 64 < 64" "z mod 64 < 64"
    "x mod 4 * 16 < 64" "y mod 16 * 4 < 64"
  using assms by arith+

lemma hi_lo:
  fixes a b :: nat
  shows "b < 16 \<Longrightarrow> (a * 16 + b) div 16 = a" "b < 16 \<Longrightarrow> (a * 16 + b) mod 16 = b"
    "b < 4 \<Longrightarrow> (a * 4 + b) div 4 = a" "b < 4 \<Longrightarrow> (a * 4 + b) mod 4 = b"
  by simp_all

lemma small_parts:
  fixes y z :: nat
  assumes "y < 256" "z < 256"
  shows "y div 16 div 16 = 0" "y div 16 mod 16 = y div 16"
    "z div 64 div 4 = 0" "z div 64 mod 4 = z div 64"
proof -
  have y16: "y div 16 < 16" and z64: "z div 64 < 4"
    using assms by arith+
  from y16 show "y div 16 div 16 = 0" "y div 16 mod 16 = y div 16" by simp_all
  from z64 show "z div 64 div 4 = 0" "z div 64 mod 4 = z div 64" by simp_all
qed

lemma emit_prepend: "emit (of_char a) (prepend s r) = prepend (a # s) r"
  by (cases r) (simp_all add: prepend_def emit_def)

lemma prepend_Nil: "prepend [] r = r"
  by (cases r) (simp_all add: prepend_def)

lemma a2b_quad:
  "a2b 0 0 0 (b2a (a # b # c # s) @ rest) =
     emit (of_char a) (emit (of_char b) (emit (of_char c) (a2b 0 0 0 (b2a s @ rest))))"
proof -
  let ?x = "of_char a :: nat" and ?y = "of_char b :: nat" and ?z = "of_char c :: nat"
  have b: "?x < 256" "?y < 256" "?z < 256" by simp_all
  note sb = sextet_bounds [OF b] and sp = small_parts [OF b(2,3)]
  show ?thesis
    by (simp add: Let_def a2b_digit sb sp del: a2b.simps)
qed

lemma a2b_tail1:
  "a2b 0 0 0 (b2a [a] @ rest) = Inr [a]"
proof -
  let ?x = "of_char a :: nat"
  have b: "?x < 256" by simp
  note sb = sextet_bounds [OF b b b] and sp = small_parts [OF b b]
  have "a2b 0 0 0 (b2a [a] @ rest) = emit ?x (a2b 2 0 0 (CHR ''='' # CHR ''='' # rest))"
    by (simp add: Let_def a2b_digit sb sp del: a2b.simps)
  also have "a2b 2 0 0 (CHR ''='' # CHR ''='' # rest) = Inr []"
    by simp
  finally show ?thesis by (simp add: emit_def)
qed

lemma a2b_tail2:
  "a2b 0 0 0 (b2a [a, b] @ rest) = Inr [a, b]"
proof -
  let ?x = "of_char a :: nat" and ?y = "of_char b :: nat"
  have b: "?x < 256" "?y < 256" by simp_all
  note sb = sextet_bounds [OF b b(1)] and sp = small_parts [OF b(2) b(2)]
  have "a2b 0 0 0 (b2a [a, b] @ rest) = emit ?x (emit ?y (a2b 3 0 0 (CHR ''='' # rest)))"
    by (simp add: Let_def a2b_digit sb sp del: a2b.simps)
  also have "a2b 3 0 0 (CHR ''='' # rest) = Inr []"
    by simp
  finally show ?thesis by (simp add: emit_def)
qed

lemma a2b_b2a:
  "a2b 0 0 0 (b2a s @ CHR 0x0A # rest) =
     (if length s mod 3 = 0 then prepend s (a2b 0 0 0 rest) else Inr s)"
proof (induction s rule: b2a.induct)
  case 1
  show ?case by (simp add: prepend_Nil a2b_newline del: a2b.simps)
next
  case (2 a)
  show ?case by (simp only: a2b_tail1) simp
next
  case (3 a b)
  show ?case by (simp only: a2b_tail2) simp
next
  case (4 a b c s)
  show ?case
    unfolding a2b_quad "4.IH" [OF refl refl refl]
    by (simp add: emit_prepend emit_Inr)
qed

text \<open>Decoding inverts encoding, for every byte string.\<close>

lemma decode_encodebytes: "decodebytes (encodebytes s) = Inr s"
  unfolding decodebytes_def
proof (induction s rule: encodebytes.induct)
  case (1 s)
  show ?case
  proof (cases "s = []")
    case True
    then show ?thesis by (simp add: encodebytes.simps)
  next
    case False
    have enc: "encodebytes s = b2a (take MAXBINSIZE s) @ CHR 0x0A # encodebytes (drop MAXBINSIZE s)"
      using False by (subst encodebytes.simps) (simp add: b2a_base64_def)
    have ih: "a2b 0 0 0 (encodebytes (drop MAXBINSIZE s)) = Inr (drop MAXBINSIZE s)"
      using "1.IH" False by simp
    show ?thesis
    proof (cases "length (take MAXBINSIZE s) mod 3 = 0")
      case True
      then show ?thesis
        unfolding enc a2b_b2a ih by (simp add: prepend_def)
    next
      case nz: False
      then have "length s < MAXBINSIZE"
        by (simp add: MAXBINSIZE_def min_def split: if_splits) arith
      with nz show ?thesis
        unfolding enc a2b_b2a by simp
    qed
  qed
qed

lemma is_attachment_part: "is_attachment (attachment_part fc)"
  by (cases fc) (simp add: attachment_part_def)

lemma payload_attachment_part: "payload (attachment_part (fn, content)) = encodebytes content"
  by (simp add: attachment_part_def)

lemma attachments_make_email:
  "filter is_attachment (parts (make_email f t s p h atts)) = map attachment_part atts"
proof -
  have "filter is_attachment (map attachment_part atts) = map attachment_part atts"
    by (induction atts) (simp_all add: is_attachment_part del: is_attachment.simps)
  then show ?thesis
    by (simp add: make_email_def Let_def)
qed

text \<open>
  C7. For every byte string and recipient, the message the driver builds has exactly
  one attachment part, the one made from \<^verbatim>\<open>report.csv\<close> and the bytes: it is
  marked as base64, its payload is \<^verbatim>\<open>encodebytes\<close> of the bytes, and decoding that
  payload gives the bytes back. The same holds for every attachment \<^verbatim>\<open>make_email\<close>
  is given. The HTML body of the message contains the preview table and the plain
  body contains the greeting name.
\<close>

theorem attachment_round_trip:
  "filter is_attachment (parts (build_message cfg report_bytes preview (email, nm)))
     = [attachment_part (''report.csv'', report_bytes)]
   \<and> header (attachment_part (''report.csv'', report_bytes)) ''Content-Transfer-Encoding''
       = Some ''base64''
   \<and> payload (attachment_part (''report.csv'', report_bytes)) = encodebytes report_bytes
   \<and> decodebytes (encodebytes report_bytes) = Inr report_bytes
   \<and> map (\<lambda>p. decodebytes (payload p))
         (filter is_attachment (parts (make_email f t s p h atts)))
       = map (\<lambda>fc. Inr (snd fc)) atts
   \<and> (\<exists>before rest. text_bodies ''html'' (build_message cfg report_bytes preview (email, nm))
          = [before @ preview @ rest])
   \<and> (\<exists>before rest. text_bodies ''plain'' (build_message cfg report_bytes preview (email, nm))
          = [before @ greeting_name nm @ rest])"
  (is "?one \<and> ?cte \<and> ?pay \<and> ?dec \<and> ?all \<and> ?html \<and> ?plain")
proof -
  have one: ?one
    unfolding build_message_def by (simp add: Let_def attachments_make_email)
  have cte: ?cte
    by (simp add: attachment_part_def)
  have pay: ?pay
    by (rule payload_attachment_part)
  have dec: ?dec
    by (rule decode_encodebytes)
  have every: ?all
    unfolding attachments_make_email
    by (induction atts) (auto simp: payload_attachment_part decode_encodebytes)
  have html: ?html
  proof -
    have "html_text (greeting_name nm) preview =
      (NL @
       ''        <html>'' @ NL @
       ''          <body>'' @ NL @
       ''            <p>Bok '' @ greeting_name nm @ '',</p>'' @ NL @
       ''            <p><strong>Bok kak si Deane? Ovo je test.</strong></p>'' @ NL @
       ''            <p>U privitku je kratki report (CSV) generiran pomo'' @
         [CHR 0xC4, CHR 0x87] @ ''u <code>pandas</code>.</p>'' @ NL @
       ''            <h4>Pregled (prvih 10 redaka)</h4>'' @ NL @
       ''            '') @ preview @
      (NL @
       ''            <p>LP!</p>'' @ NL @
       ''          </body>'' @ NL @
       ''        </html>'' @ NL @
       ''        '')"
      by (simp add: html_text_def)
    then show ?thesis
      unfolding text_bodies_build_message by blast
  qed
  have plain: ?plain
  proof -
    have "plain_text (greeting_name nm) =
      ''Bok '' @ greeting_name nm @
      ('','' @ NL @ NL @
       ''Bok kak si Deane? Ovo je test.'' @ NL @ NL @
       ''U privitku je kratki report koji je generiran pomo'' @ [CHR 0xC4, CHR 0x87] @
       ''u pandas-a.'' @ NL @
       ''Lp!'')"
      by (simp add: plain_text_def)
    then show ?thesis
      unfolding text_bodies_build_message by blast
  qed
  from one cte pay dec every html plain show ?thesis
    by (intro conjI)
qed

end
